theory Spec2Isabelle
  imports Complex_Main
begin

section \<open>JavaScript values\<close>

text \<open>
  A JavaScript number is an IEEE double. The model keeps the three non-finite values
  apart and takes a finite value as the real number it stands for: arithmetic on finite
  values is exact (no rounding, no overflow) and the sign of zero is not tracked. Where a
  result of the code depends on the rounding of a double (the order in which the sums of a
  cell are added up, a quotient that falls on a tie of \<^verbatim>\<open>Math.round\<close>), the model has
  the exact result instead.
\<close>

datatype jsnum = Fin real | PInf | NInf | NaN

text \<open>The values a field of a row fetched as JSON can hold.\<close>

datatype jsval = Undefined | Null | Bool bool | Num jsnum | Str string

text \<open>
  The conversions between strings and numbers are operations of the language, not of the
  repository. They are parameters of the model: every theorem holds for any such pair.
\<close>

record host =
  StringToNumber :: "string \<Rightarrow> jsnum"
  NumberToString :: "jsnum \<Rightarrow> string"

text \<open>\<^verbatim>\<open>Number.isFinite\<close>\<close>

fun isFinite :: "jsnum \<Rightarrow> bool" where
  "isFinite (Fin x) = True"
| "isFinite v = False"

text \<open>\<^verbatim>\<open>a + b\<close> on numbers\<close>

fun js_add :: "jsnum \<Rightarrow> jsnum \<Rightarrow> jsnum" where
  "js_add NaN b = NaN"
| "js_add a NaN = NaN"
| "js_add (Fin a) (Fin b) = Fin (a + b)"
| "js_add (Fin a) b = b"
| "js_add a (Fin b) = a"
| "js_add PInf PInf = PInf"
| "js_add NInf NInf = NInf"
| "js_add PInf NInf = NaN"
| "js_add NInf PInf = NaN"

text \<open>\<^verbatim>\<open>-a\<close> and \<^verbatim>\<open>a - b\<close>\<close>

fun js_neg :: "jsnum \<Rightarrow> jsnum" where
  "js_neg (Fin a) = Fin (- a)"
| "js_neg PInf = NInf"
| "js_neg NInf = PInf"
| "js_neg NaN = NaN"

definition js_sub :: "jsnum \<Rightarrow> jsnum \<Rightarrow> jsnum" where
  "js_sub a b = js_add a (js_neg b)"

text \<open>\<^verbatim>\<open>a * b\<close>: an infinity times zero is NaN, otherwise the signs multiply.\<close>

fun js_mul :: "jsnum \<Rightarrow> jsnum \<Rightarrow> jsnum" where
  "js_mul NaN b = NaN"
| "js_mul a NaN = NaN"
| "js_mul (Fin a) (Fin b) = Fin (a * b)"
| "js_mul (Fin a) PInf = (if a = 0 then NaN else if 0 < a then PInf else NInf)"
| "js_mul (Fin a) NInf = (if a = 0 then NaN else if 0 < a then NInf else PInf)"
| "js_mul PInf (Fin b) = (if b = 0 then NaN else if 0 < b then PInf else NInf)"
| "js_mul NInf (Fin b) = (if b = 0 then NaN else if 0 < b then NInf else PInf)"
| "js_mul PInf PInf = PInf"
| "js_mul NInf NInf = PInf"
| "js_mul PInf NInf = NInf"
| "js_mul NInf PInf = NInf"

text \<open>\<^verbatim>\<open>a / b\<close>: a zero divisor is taken as positive zero.\<close>

fun js_div :: "jsnum \<Rightarrow> jsnum \<Rightarrow> jsnum" where
  "js_div NaN b = NaN"
| "js_div a NaN = NaN"
| "js_div (Fin a) (Fin b) =
     (if b = 0 then (if a = 0 then NaN else if 0 < a then PInf else NInf) else Fin (a / b))"
| "js_div (Fin a) b = Fin 0"
| "js_div PInf (Fin b) = (if 0 \<le> b then PInf else NInf)"
| "js_div NInf (Fin b) = (if 0 \<le> b then NInf else PInf)"
| "js_div a b = NaN"

text \<open>\<^verbatim>\<open>Math.max\<close> and \<^verbatim>\<open>Math.min\<close> of two arguments: NaN if either is NaN.\<close>

fun Math_max :: "jsnum \<Rightarrow> jsnum \<Rightarrow> jsnum" where
  "Math_max NaN b = NaN"
| "Math_max a NaN = NaN"
| "Math_max (Fin a) (Fin b) = Fin (max a b)"
| "Math_max PInf b = PInf"
| "Math_max a PInf = PInf"
| "Math_max NInf b = b"
| "Math_max a NInf = a"

fun Math_min :: "jsnum \<Rightarrow> jsnum \<Rightarrow> jsnum" where
  "Math_min NaN b = NaN"
| "Math_min a NaN = NaN"
| "Math_min (Fin a) (Fin b) = Fin (min a b)"
| "Math_min NInf b = NInf"
| "Math_min a NInf = NInf"
| "Math_min PInf b = b"
| "Math_min a PInf = a"

text \<open>\<^verbatim>\<open>Math.log10\<close>\<close>

fun Math_log10 :: "jsnum \<Rightarrow> jsnum" where
  "Math_log10 (Fin x) = (if x < 0 then NaN else if x = 0 then NInf else Fin (log 10 x))"
| "Math_log10 PInf = PInf"
| "Math_log10 v = NaN"

text \<open>\<^verbatim>\<open>Math.round\<close>: the nearest integer, a tie going up.\<close>

fun Math_round :: "jsnum \<Rightarrow> jsnum" where
  "Math_round (Fin x) = Fin (of_int \<lfloor>x + 1 / 2\<rfloor>)"
| "Math_round v = v"

text \<open>\<^verbatim>\<open>Number(v)\<close>\<close>

fun Number :: "host \<Rightarrow> jsval \<Rightarrow> jsnum" where
  "Number H Undefined = NaN"
| "Number H Null = Fin 0"
| "Number H (Bool b) = (if b then Fin 1 else Fin 0)"
| "Number H (Num n) = n"
| "Number H (Str s) = StringToNumber H s"

text \<open>\<^verbatim>\<open>a ?? b\<close>\<close>

fun nullish :: "jsval \<Rightarrow> jsval \<Rightarrow> jsval" where
  "nullish Undefined b = b"
| "nullish Null b = b"
| "nullish a b = a"

section \<open>Rows, heat entries and the constants of heatmap.js\<close>

text \<open>
  A row of the backend's response, with the properties heatmap.js reads; a property the
  object does not have is \<open>Undefined\<close>. An element of the response array that is
  \<^verbatim>\<open>null\<close> or \<^verbatim>\<open>undefined\<close> is \<open>None\<close>.
\<close>

record row =
  lat :: jsval
  latitude :: jsval
  lat_deg :: jsval
  lng :: jsval
  longitude :: jsval
  lon :: jsval
  lng_deg :: jsval
  score :: jsval
  samples :: jsval
  count :: jsval
  confidence :: jsval
  confidence_numeric :: jsval

type_synonym jsrow = "row option"

datatype error = TypeError | FetchError string

record meta =
  m_score :: "jsnum option"
  m_samples :: jsnum
  m_confidence :: jsval

record heat_entry =
  e_lat :: jsnum
  e_lng :: jsnum
  intensity :: jsnum
  e_meta :: meta

definition USE_AGGREGATION :: bool where
  "USE_AGGREGATION = False"

definition AGG_CELL_SIZE_DEG :: jsnum where
  "AGG_CELL_SIZE_DEG = Fin (15 / 10000)"

definition VISUAL_AMPLIFIER :: jsnum where
  "VISUAL_AMPLIFIER = Fin 2"

definition MAX_INTENSITY_CLAMP :: jsnum where
  "MAX_INTENSITY_CLAMP = Fin 4"

section \<open>The intensity scorer\<close>

definition pointToHeatEntry :: "host \<Rightarrow> jsrow \<Rightarrow> heat_entry option" where
  "pointToHeatEntry H p' =
     (case p' of
        None \<Rightarrow> None
      | Some p \<Rightarrow>
          (let latN = Number H (nullish (nullish (lat p) (latitude p)) (lat_deg p));
               lngN = Number H (nullish (nullish (nullish (lng p) (longitude p)) (lon p)) (lng_deg p))
           in if \<not> isFinite latN \<or> \<not> isFinite lngN then None
              else
                (let rawScore =
                       (if score p \<noteq> Undefined \<and> score p \<noteq> Null then Some (Number H (score p))
                        else None);
                     intensity0 =
                       (case rawScore of
                          None \<Rightarrow> Fin (75 / 100)
                        | Some s \<Rightarrow> Math_max (Fin 0) (Math_min (Fin 1) (js_sub (Fin 1) s)));
                     samplesN =
                       Math_max (Fin 1)
                         (Number H (nullish (nullish (samples p) (count p)) (Num (Fin 1))));
                     boost =
                       Math_min (Fin 2)
                         (js_add (Fin (45 / 100))
                            (js_mul (Math_log10 (js_add samplesN (Fin 1))) (Fin (32 / 100))));
                     intensity1 = js_mul intensity0 boost;
                     intensity2 =
                       Math_max (Fin (1 / 100))
                         (Math_min MAX_INTENSITY_CLAMP (js_mul intensity1 VISUAL_AMPLIFIER))
                 in Some \<lparr>e_lat = latN, e_lng = lngN, intensity = intensity2,
                      e_meta = \<lparr>m_score = rawScore, m_samples = samplesN,
                        m_confidence =
                          nullish (nullish (confidence p) (confidence_numeric p)) Null\<rparr>\<rparr>)))"

section \<open>The spatial aggregator\<close>

text \<open>The accumulator of a grid cell and an element of the aggregated array.\<close>

record cell =
  latSum :: jsnum
  lngSum :: jsnum
  weightSum :: jsnum
  c_count :: nat

record agg_entry =
  a_lat :: jsnum
  a_lng :: jsnum
  a_intensity :: jsnum
  a_count :: nat

text \<open>
  \<^verbatim>\<open>x.toFixed(6)\<close>: the sign, then the integer nearest to \<open>|x| * 10^6\<close> (a tie going
  up) written with at least seven digits and a point before the last six. A value that is
  not finite or is at least \<open>10^21\<close> is printed by the host's number-to-string operation.
\<close>

fun digits :: "nat \<Rightarrow> string" where
  "digits n = (if n < 10 then [''0123456789'' ! n] else digits (n div 10) @ [''0123456789'' ! (n mod 10)])"

declare digits.simps [simp del]

definition toFixed6 :: "host \<Rightarrow> jsnum \<Rightarrow> string" where
  "toFixed6 H v =
     (case v of
        Fin x \<Rightarrow>
          (if x < 0 then ''-'' else []) @
          (if 10 ^ 21 \<le> \<bar>x\<bar> then NumberToString H (Fin \<bar>x\<bar>)
           else
             (let m = digits (nat \<lfloor>\<bar>x\<bar> * 10 ^ 6 + 1 / 2\<rfloor>);
                  m' = (if length m \<le> 6 then replicate (7 - length m) (CHR ''0'') @ m else m)
              in take (length m' - 6) m' @ ''.'' @ drop (length m' - 6) m'))
      | _ \<Rightarrow> NumberToString H v)"

text \<open>The key of the cell of a position (lines 162 to 164 of heatmap.js).\<close>

definition cellKey :: "host \<Rightarrow> jsnum \<Rightarrow> jsnum \<Rightarrow> jsnum \<Rightarrow> string" where
  "cellKey H cellSizeDeg latN lngN =
     (let keyLat = js_mul (Math_round (js_div latN cellSizeDeg)) cellSizeDeg;
          keyLng = js_mul (Math_round (js_div lngN cellSizeDeg)) cellSizeDeg
      in toFixed6 H keyLat @ '':'' @ toFixed6 H keyLng)"

text \<open>
  A JavaScript \<^verbatim>\<open>Map\<close> iterates in the order in which its keys were first set: it is a
  list of pairs, a new key going to the end and a known key keeping its place.
\<close>

type_synonym cells = "(string \<times> cell) list"

fun Map_get :: "cells \<Rightarrow> string \<Rightarrow> cell option" where
  "Map_get [] k = None"
| "Map_get ((k', v) # m) k = (if k' = k then Some v else Map_get m k)"

fun Map_set :: "cells \<Rightarrow> string \<Rightarrow> cell \<Rightarrow> cells" where
  "Map_set [] k v = [(k, v)]"
| "Map_set ((k', v') # m) k v = (if k' = k then (k, v) # m else (k', v') # Map_set m k v)"

text \<open>The body of the loop over the rows, for a row that is an object.\<close>

definition aggStep :: "host \<Rightarrow> jsnum \<Rightarrow> cells \<Rightarrow> row \<Rightarrow> cells" where
  "aggStep H cellSizeDeg cs r =
     (let latN = Number H (nullish (nullish (lat r) (latitude r)) (lat_deg r));
          lngN = Number H (nullish (nullish (nullish (lng r) (longitude r)) (lon r)) (lng_deg r))
      in if \<not> isFinite latN \<or> \<not> isFinite lngN then cs
         else
           (let rawScore =
                  (if score r \<noteq> Undefined \<and> score r \<noteq> Null then Some (Number H (score r))
                   else None);
                intensity0 =
                  (case rawScore of
                     None \<Rightarrow> Fin (75 / 100)
                   | Some s \<Rightarrow> Math_max (Fin 0) (Math_min (Fin 1) (js_sub (Fin 1) s)));
                samplesN =
                  Math_max (Fin 1)
                    (Number H (nullish (nullish (samples r) (count r)) (Num (Fin 1))));
                boost =
                  Math_min (Fin 2)
                    (js_add (Fin (45 / 100))
                       (js_mul (Math_log10 (js_add samplesN (Fin 1))) (Fin (32 / 100))));
                pointIntensity0 = js_mul (js_mul intensity0 boost) VISUAL_AMPLIFIER;
                pointIntensity =
                  Math_max (Fin (1 / 100)) (Math_min MAX_INTENSITY_CLAMP pointIntensity0);
                key = cellKey H cellSizeDeg latN lngN;
                cur =
                  (case Map_get cs key of
                     Some v \<Rightarrow> v
                   | None \<Rightarrow> \<lparr>latSum = Fin 0, lngSum = Fin 0, weightSum = Fin 0, c_count = 0\<rparr>)
            in Map_set cs key
                 \<lparr>latSum = js_add (latSum cur) (js_mul latN pointIntensity),
                  lngSum = js_add (lngSum cur) (js_mul lngN pointIntensity),
                  weightSum = js_add (weightSum cur) pointIntensity,
                  c_count = c_count cur + 1\<rparr>))"

text \<open>
  The loop: reading a property of a row that is \<^verbatim>\<open>null\<close> or \<^verbatim>\<open>undefined\<close> throws a
  TypeError, which ends the function.
\<close>

fun aggLoop :: "host \<Rightarrow> jsnum \<Rightarrow> cells \<Rightarrow> jsrow list \<Rightarrow> error + cells" where
  "aggLoop H cellSizeDeg cs [] = Inr cs"
| "aggLoop H cellSizeDeg cs (None # rows) = Inl TypeError"
| "aggLoop H cellSizeDeg cs (Some r # rows) = aggLoop H cellSizeDeg (aggStep H cellSizeDeg cs r) rows"

definition emitCell :: "string \<times> cell \<Rightarrow> agg_entry" where
  "emitCell kv =
     (let v = snd kv;
          avgLat = js_div (latSum v) (weightSum v);
          avgLng = js_div (lngSum v) (weightSum v);
          combinedIntensity = Math_min MAX_INTENSITY_CLAMP (weightSum v)
      in \<lparr>a_lat = avgLat, a_lng = avgLng, a_intensity = combinedIntensity, a_count = c_count v\<rparr>)"

definition aggregateByGrid :: "host \<Rightarrow> jsrow list \<Rightarrow> jsnum \<Rightarrow> error + agg_entry list" where
  "aggregateByGrid H rows cellSizeDeg =
     (case aggLoop H cellSizeDeg [] rows of
        Inl e \<Rightarrow> Inl e
      | Inr cs \<Rightarrow> Inr (map emitCell cs))"

section \<open>Building the heat array\<close>

type_synonym triple = "jsnum \<times> jsnum \<times> jsnum"

text \<open>The loop of the unaggregated branch, \<open>arr\<close> being the array built so far.\<close>

fun heatLoop :: "host \<Rightarrow> triple list \<Rightarrow> jsrow list \<Rightarrow> triple list" where
  "heatLoop H arr [] = arr"
| "heatLoop H arr (r # rows) =
     (case pointToHeatEntry H r of
        None \<Rightarrow> heatLoop H arr rows
      | Some p \<Rightarrow> heatLoop H (arr @ [(e_lat p, e_lng p, intensity p)]) rows)"

text \<open>\<open>None\<close> is a missing argument (\<^verbatim>\<open>null\<close> or \<^verbatim>\<open>undefined\<close>).\<close>

definition buildHeatArrayFromRows :: "host \<Rightarrow> jsrow list option \<Rightarrow> error + triple list" where
  "buildHeatArrayFromRows H rows' =
     (case rows' of
        None \<Rightarrow> Inr []
      | Some rows \<Rightarrow>
          if rows = [] then Inr []
          else if USE_AGGREGATION then
            (case aggregateByGrid H rows AGG_CELL_SIZE_DEG of
               Inl e \<Rightarrow> Inl e
             | Inr aggregated \<Rightarrow> Inr (map (\<lambda>a. (a_lat a, a_lng a, a_intensity a)) aggregated))
          else Inr (heatLoop H [] rows))"

section \<open>CSV export\<close>







section \<open>The refresh cycle\<close>

text \<open>
  What a fetch resolves to: an array of rows, an object with the array under
  \<^verbatim>\<open>points\<close> or \<^verbatim>\<open>data\<close> (\<open>None\<close> for a property that is absent or falsy), or
  \<^verbatim>\<open>null\<close>/\<^verbatim>\<open>undefined\<close>. A fetch that fails is \<open>Inl\<close> of its error.
\<close>

datatype response =
    RespArray "jsrow list"
  | RespObject "jsrow list option" "jsrow list option"
  | RespNullish

datatype feedback_msg = Loading | Loaded nat | Failed error

text \<open>
  The page as a cycle reads it: whether the feedback element exists and whether the heat
  layer plugin is loaded.
\<close>

record page =
  feedbackEl :: bool
  heatPlugin :: bool

text \<open>
  The state a cycle changes: the closure variable \<^verbatim>\<open>lastFetchedPoints\<close>, the text of
  the feedback element and the points of the heat layer (\<open>None\<close> before the layer is
  created). The marker layers and popups are Leaflet's and are not modelled; the feedback
  text is kept as the kind of message, without the average score.
\<close>

record sched =
  lastFetchedPoints :: "jsrow list"
  feedbackText :: "feedback_msg option"
  heatLayer :: "triple list option"

definition setFeedback :: "page \<Rightarrow> feedback_msg \<Rightarrow> sched \<Rightarrow> sched" where
  "setFeedback pg msg st = (if feedbackEl pg then st\<lparr>feedbackText := Some msg\<rparr> else st)"

text \<open>
  \<^verbatim>\<open>updateLeftFeedback\<close>: returns at once without the element; otherwise the filter over
  the points reads \<^verbatim>\<open>p.score\<close> and throws on a null point.
\<close>

definition updateLeftFeedback :: "page \<Rightarrow> jsrow list \<Rightarrow> sched \<Rightarrow> error + sched" where
  "updateLeftFeedback pg pts st =
     (if \<not> feedbackEl pg then Inr st
      else if None \<in> set pts then Inl TypeError
      else Inr (st\<lparr>feedbackText := Some (Loaded (length pts))\<rparr>))"

text \<open>The \<^verbatim>\<open>catch\<close> block: the message goes to the feedback element and the error is rethrown.\<close>

definition catchBlock :: "page \<Rightarrow> sched \<Rightarrow> error \<Rightarrow> sched \<times> (error + jsrow list)" where
  "catchBlock pg st err = (setFeedback pg (Failed err) st, Inl err)"

text \<open>
  \<^verbatim>\<open>fetchAndRender\<close>, given what the awaited fetch gave. The result is the state after
  the cycle and either the error thrown to the caller or the points returned.
\<close>

definition fetchAndRender ::
  "host \<Rightarrow> page \<Rightarrow> sched \<Rightarrow> error + response \<Rightarrow> sched \<times> (error + jsrow list)" where
  "fetchAndRender H pg st0 fetched =
     (let st1 = setFeedback pg Loading st0 in
      case fetched of
        Inl err \<Rightarrow> catchBlock pg st1 err
      | Inr RespNullish \<Rightarrow> catchBlock pg st1 TypeError
      | Inr data \<Rightarrow>
          (let pts =
                 (case data of
                    RespArray a \<Rightarrow> a
                  | RespObject p d \<Rightarrow>
                      (case p of Some a \<Rightarrow> a | None \<Rightarrow> (case d of Some a \<Rightarrow> a | None \<Rightarrow> []))
                  | RespNullish \<Rightarrow> []);
               st2 = st1\<lparr>lastFetchedPoints := pts\<rparr>
           in case updateLeftFeedback pg pts st2 of
                Inl err \<Rightarrow> catchBlock pg st2 err
              | Inr st3 \<Rightarrow>
                  (case buildHeatArrayFromRows H (Some pts) of
                     Inl err \<Rightarrow> catchBlock pg st3 err
                   | Inr heatArr \<Rightarrow>
                       (let st4 = (if heatPlugin pg then st3\<lparr>heatLayer := Some heatArr\<rparr> else st3)
                        in if None \<in> set pts then catchBlock pg st4 TypeError
                           else (st4, Inr pts)))))"

section \<open>The debounce of viewport changes\<close>

text \<open>
  The timers of the host, on a clock in milliseconds: \<^verbatim>\<open>setTimeout\<close> hands out a fresh
  positive id and queues the callback with the time at which it is due,
  \<^verbatim>\<open>clearTimeout\<close> removes the timer of an id if it is still queued. The only callback
  queued is the one that calls \<^verbatim>\<open>fetchAndRender\<close>, so a firing timer is counted in
  \<open>fetches\<close>. \<open>fetchTimeout\<close> is the handler's variable (\<open>None\<close> for \<^verbatim>\<open>null\<close>).
\<close>

record timers =
  fetchTimeout :: "nat option"
  queued :: "(nat \<times> nat) list"
  nextId :: nat
  fetches :: nat

definition initTimers :: timers where
  "initTimers = \<lparr>fetchTimeout = None, queued = [], nextId = 1, fetches = 0\<rparr>"

definition clearTimeout :: "nat \<Rightarrow> timers \<Rightarrow> timers" where
  "clearTimeout i st = st\<lparr>queued := filter (\<lambda>t. fst t \<noteq> i) (queued st)\<rparr>"

definition setTimeout :: "nat \<Rightarrow> nat \<Rightarrow> timers \<Rightarrow> nat \<times> timers" where
  "setTimeout now delay st =
     (nextId st, st\<lparr>queued := queued st @ [(nextId st, now + delay)], nextId := nextId st + 1\<rparr>)"

text \<open>The \<^verbatim>\<open>moveend\<close> handler, run at time \<open>now\<close>.\<close>

definition moveend :: "nat \<Rightarrow> timers \<Rightarrow> timers" where
  "moveend now st =
     (let st1 =
            (case fetchTimeout st of
               Some i \<Rightarrow> if i \<noteq> 0 then clearTimeout i st else st
             | None \<Rightarrow> st);
          (i, st2) = setTimeout now 300 st1
      in st2\<lparr>fetchTimeout := Some i\<rparr>)"

text \<open>The host runs the timers that are due at time \<open>now\<close>.\<close>

definition fire :: "nat \<Rightarrow> timers \<Rightarrow> timers" where
  "fire now st =
     st\<lparr>fetches := fetches st + length (filter (\<lambda>t. snd t \<le> now) (queued st)),
        queued := filter (\<lambda>t. \<not> snd t \<le> now) (queued st)\<rparr>"

text \<open>
  The events of a session: \<^verbatim>\<open>moveend\<close> at each of the given times, in order. Before an
  event is handled the timers due by then have fired.
\<close>

fun runEvents :: "nat list \<Rightarrow> timers \<Rightarrow> timers" where
  "runEvents [] st = st"
| "runEvents (t # ts) st = runEvents ts (moveend t (fire t st))"

text \<open>After the last event every queued timer comes due.\<close>

definition settle :: "timers \<Rightarrow> timers" where
  "settle st = st\<lparr>fetches := fetches st + length (queued st), queued := []\<rparr>"

section \<open>Notions used to state the properties\<close>

text \<open>The position of a row as both functions compute it, and whether they accept it.\<close>

definition rowLat :: "host \<Rightarrow> row \<Rightarrow> jsnum" where
  "rowLat H r = Number H (nullish (nullish (lat r) (latitude r)) (lat_deg r))"

definition rowLng :: "host \<Rightarrow> row \<Rightarrow> jsnum" where
  "rowLng H r = Number H (nullish (nullish (nullish (lng r) (longitude r)) (lon r)) (lng_deg r))"

definition accepted :: "host \<Rightarrow> row \<Rightarrow> bool" where
  "accepted H r = (isFinite (rowLat H r) \<and> isFinite (rowLng H r))"

definition scoreAbsent :: "row \<Rightarrow> bool" where
  "scoreAbsent r = (score r = Undefined \<or> score r = Null)"

definition samplesValue :: "host \<Rightarrow> row \<Rightarrow> jsnum" where
  "samplesValue H r = Number H (nullish (nullish (samples r) (count r)) (Num (Fin 1)))"

text \<open>
  A row is numeric when its score, if it has one, and its sample count convert to numbers
  (possibly infinite) rather than to NaN.
\<close>

definition numericRow :: "host \<Rightarrow> row \<Rightarrow> bool" where
  "numericRow H r =
     ((scoreAbsent r \<or> Number H (score r) \<noteq> NaN) \<and> samplesValue H r \<noteq> NaN)"

text \<open>
  For the closed examples: a host and some rows. The host prints the whole numbers below
  \<open>10^21\<close> and the non-finite values as JavaScript does and converts every string to NaN;
  the examples print no other number and convert no string but \<^verbatim>\<open>"x"\<close>, which is NaN in
  JavaScript too.
\<close>

definition ex_host :: host where
  "ex_host =
     \<lparr>StringToNumber = (\<lambda>s. NaN),
      NumberToString =
        (\<lambda>n. case n of
           Fin x \<Rightarrow>
             if of_int \<lfloor>x\<rfloor> = x \<and> \<bar>x\<bar> < 10 ^ 21
             then (if x < 0 then ''-'' else []) @ digits (nat \<lfloor>\<bar>x\<bar>\<rfloor>)
             else ''?''
         | PInf \<Rightarrow> ''Infinity''
         | NInf \<Rightarrow> ''-Infinity''
         | NaN \<Rightarrow> ''NaN'')\<rparr>"

definition blank :: row where
  "blank =
     \<lparr>lat = Undefined, latitude = Undefined, lat_deg = Undefined, lng = Undefined,
      longitude = Undefined, lon = Undefined, lng_deg = Undefined, score = Undefined,
      samples = Undefined, count = Undefined, confidence = Undefined,
      confidence_numeric = Undefined\<rparr>"

definition rowAt :: "real \<Rightarrow> real \<Rightarrow> row" where
  "rowAt x y = blank\<lparr>lat := Num (Fin x), lng := Num (Fin y)\<rparr>"

text \<open>
  A row at a position with score 0 and 9 samples (intensity 1.54), one with score 1
  (intensity 0.01), and the malformed row \<^verbatim>\<open>{lat: "x", lng: 12.9}\<close>.
\<close>

definition unsafeRow :: "real \<Rightarrow> real \<Rightarrow> row" where
  "unsafeRow x y = (rowAt x y)\<lparr>score := Num (Fin 0), samples := Num (Fin 9)\<rparr>"

definition safeRow :: "real \<Rightarrow> real \<Rightarrow> row" where
  "safeRow x y = (rowAt x y)\<lparr>score := Num (Fin 1)\<rparr>"

definition malformedRow :: row where
  "malformedRow = blank\<lparr>lat := Str ''x'', lng := Num (Fin (129 / 10))\<rparr>"

text \<open>
  The row \<^verbatim>\<open>{lat: 1, lng: 2, score: "x"}\<close>, whose score converts to NaN, and the row
  \<^verbatim>\<open>{lat_deg: null, lng: 5}\<close>, whose only latitude is null.
\<close>

definition nanRow :: row where
  "nanRow = (rowAt 1 2)\<lparr>score := Str ''x''\<rparr>"

definition nullLatRow :: row where
  "nullLatRow = blank\<lparr>lat_deg := Null, lng := Num (Fin 5)\<rparr>"

text \<open>The heat entries of the accepted rows, in the order of the rows.\<close>

definition entries :: "host \<Rightarrow> jsrow list \<Rightarrow> heat_entry list" where
  "entries H rows = List.map_filter (pointToHeatEntry H) rows"

text \<open>The key of a heat entry, and the step of the aggregator's loop on a heat entry.\<close>

definition keyOf :: "host \<Rightarrow> jsnum \<Rightarrow> heat_entry \<Rightarrow> string" where
  "keyOf H c e = cellKey H c (e_lat e) (e_lng e)"

definition addEntry :: "host \<Rightarrow> jsnum \<Rightarrow> cells \<Rightarrow> heat_entry \<Rightarrow> cells" where
  "addEntry H c cs e =
     (let cur = (case Map_get cs (keyOf H c e) of
                   Some v \<Rightarrow> v
                 | None \<Rightarrow> \<lparr>latSum = Fin 0, lngSum = Fin 0, weightSum = Fin 0, c_count = 0\<rparr>)
      in Map_set cs (keyOf H c e)
           \<lparr>latSum = js_add (latSum cur) (js_mul (e_lat e) (intensity e)),
            lngSum = js_add (lngSum cur) (js_mul (e_lng e) (intensity e)),
            weightSum = js_add (weightSum cur) (intensity e),
            c_count = c_count cur + 1\<rparr>)"

text \<open>
  Events of one burst (each less than the delay after the one before) and events spaced
  beyond the delay.
\<close>

fun burst :: "nat list \<Rightarrow> bool" where
  "burst (a # b # ts) = (a \<le> b \<and> b < a + 300 \<and> burst (b # ts))"
| "burst ts = True"

fun spaced :: "nat list \<Rightarrow> bool" where
  "spaced (a # b # ts) = (a + 300 < b \<and> spaced (b # ts))"
| "spaced ts = True"

text \<open>
  After an event at time \<open>a\<close>: one timer is queued, due at \<open>a + 300\<close>, and the handler holds
  its id.
\<close>

definition armed :: "nat \<Rightarrow> timers \<Rightarrow> bool" where
  "armed a st = (\<exists>i. i \<noteq> 0 \<and> fetchTimeout st = Some i \<and> queued st = [(i, a + 300)] \<and> nextId st \<noteq> 0)"



section \<open>The scorer: lemmas\<close>

lemma log10_2_lower: "301 / 1000 < log 10 (2::real)"
proof -
  have "log 10 ((10::real) ^ 301) < log 10 (2 ^ 1000)"
    by (subst log_less_cancel_iff) simp_all
  moreover have "log 10 ((10::real) ^ 301) = real 301"
    by (rule log_pow_cancel) simp_all
  moreover have "log 10 ((2::real) ^ 1000) = real 1000 * log 10 2"
    by (rule log_nat_power) simp
  ultimately have "real 301 < real 1000 * log 10 (2::real)"
    by (simp only:)
  then show ?thesis by simp
qed

lemma log10_2_upper: "log 10 (2::real) < 302 / 1000"
proof -
  have "log 10 ((2::real) ^ 500) < log 10 (10 ^ 151)"
    by (subst log_less_cancel_iff) simp_all
  moreover have "log 10 ((10::real) ^ 151) = real 151"
    by (rule log_pow_cancel) simp_all
  moreover have "log 10 ((2::real) ^ 500) = real 500 * log 10 2"
    by (rule log_nat_power) simp
  ultimately have "real 500 * log 10 (2::real) < real 151"
    by (simp only:)
  then show ?thesis by simp
qed

lemma isFinite_iff: "isFinite v \<longleftrightarrow> (\<exists>x. v = Fin x)"
  by (cases v) simp_all

lemma pointToHeatEntry_None_iff:
  "pointToHeatEntry H (Some r) = None \<longleftrightarrow> \<not> accepted H r"
  by (auto simp: pointToHeatEntry_def accepted_def rowLat_def rowLng_def Let_def)

lemma pointToHeatEntry_position:
  "pointToHeatEntry H (Some r) = Some e \<Longrightarrow>
     e_lat e = rowLat H r \<and> e_lng e = rowLng H r \<and> accepted H r"
  by (auto simp: pointToHeatEntry_def accepted_def rowLat_def rowLng_def Let_def
      split: if_splits)

lemma clamp_Fin:
  "Math_max (Fin (1 / 100)) (Math_min MAX_INTENSITY_CLAMP (Fin x)) = Fin (max (1 / 100) (min 4 x))"
  by (simp add: MAX_INTENSITY_CLAMP_def)

lemma base_Fin:
  assumes "s \<noteq> NaN"
  shows "\<exists>b. Math_max (Fin 0) (Math_min (Fin 1) (js_sub (Fin 1) s)) = Fin b \<and> 0 \<le> b \<and> b \<le> 1"
  using assms by (cases s) (simp_all add: js_sub_def)

lemma boost_Fin:
  assumes "n \<noteq> NaN"
  shows "\<exists>b. Math_min (Fin 2) (js_add (Fin (45 / 100))
            (js_mul (Math_log10 (js_add (Math_max (Fin 1) n) (Fin 1))) (Fin (32 / 100)))) = Fin b
          \<and> 0 < b \<and> b \<le> 2"
proof (cases n)
  case (Fin x)
  have "0 \<le> log 10 (max 1 x + 1)"
    by (rule zero_le_log_cancel_iff[THEN iffD2]) auto
  then have "0 < 45 / 100 + log 10 (max 1 x + 1) * (32 / 100)"
    by (smt (verit) mult_nonneg_nonneg divide_pos_pos)
  with Fin show ?thesis by (auto simp: min_def)
next
  case NInf
  have "(0::real) < 45 / 100 + log 10 2 * (32 / 100)"
    using log10_2_lower by linarith
  with NInf show ?thesis by (auto simp: min_def)
qed (use assms in simp_all)

lemma pointToHeatEntry_numeric:
  assumes "accepted H r" "numericRow H r"
  shows "\<exists>e i. pointToHeatEntry H (Some r) = Some e \<and> intensity e = Fin i \<and> 1 / 100 \<le> i \<and> i \<le> 4"
proof -
  obtain x y where xy: "rowLat H r = Fin x" "rowLng H r = Fin y"
    using assms(1) by (auto simp: accepted_def isFinite_iff)
  obtain b where b: "Math_min (Fin 2) (js_add (Fin (45 / 100))
      (js_mul (Math_log10 (js_add (Math_max (Fin 1) (samplesValue H r)) (Fin 1))) (Fin (32 / 100)))) = Fin b"
    using boost_Fin[of "samplesValue H r"] assms(2) by (auto simp: numericRow_def)
  show ?thesis
  proof (cases "scoreAbsent r")
    case True
    then show ?thesis using xy b
      by (auto simp: pointToHeatEntry_def Let_def scoreAbsent_def clamp_Fin
          rowLat_def[symmetric] rowLng_def[symmetric] samplesValue_def[symmetric]
          VISUAL_AMPLIFIER_def)
  next
    case False
    then have "Number H (score r) \<noteq> NaN"
      using assms(2) by (simp add: numericRow_def)
    then obtain a where
      a: "Math_max (Fin 0) (Math_min (Fin 1) (js_sub (Fin 1) (Number H (score r)))) = Fin a"
      using base_Fin by blast
    show ?thesis using False xy a b
      by (auto simp: pointToHeatEntry_def Let_def scoreAbsent_def clamp_Fin
          rowLat_def[symmetric] rowLng_def[symmetric] samplesValue_def[symmetric]
          VISUAL_AMPLIFIER_def)
  qed
qed

text \<open>
  \<^verbatim>\<open>Math.max\<close> and \<^verbatim>\<open>Math.min\<close> return NaN for NaN, so a score that converts to NaN passes
  through both clamps.
\<close>

lemma pointToHeatEntry_NaN_score:
  assumes "accepted H r" "\<not> scoreAbsent r" "Number H (score r) = NaN"
  shows "\<exists>e. pointToHeatEntry H (Some r) = Some e \<and> e_lat e = rowLat H r \<and>
           e_lng e = rowLng H r \<and> intensity e = NaN"
proof -
  obtain x y where xy: "rowLat H r = Fin x" "rowLng H r = Fin y"
    using assms(1) by (auto simp: accepted_def isFinite_iff)
  show ?thesis using assms(2,3) xy
    by (simp add: pointToHeatEntry_def Let_def scoreAbsent_def js_sub_def
        MAX_INTENSITY_CLAMP_def rowLat_def[symmetric] rowLng_def[symmetric])
qed

lemma rowAt_accepted: "accepted H (rowAt x y)"
  by (simp add: accepted_def rowLat_def rowLng_def rowAt_def blank_def)

lemma rowAt_default: "scoreAbsent (rowAt x y) \<and> samplesValue H (rowAt x y) = Fin 1"
  by (simp add: scoreAbsent_def samplesValue_def rowAt_def blank_def)

lemma rowAt_entry:
  "map_option intensity (pointToHeatEntry H (Some (rowAt x y))) =
     Some (Fin (75 / 100 * (45 / 100 + log 10 2 * (32 / 100)) * 2))"
  using log10_2_lower log10_2_upper
  by (auto simp add: pointToHeatEntry_def Let_def rowAt_def blank_def VISUAL_AMPLIFIER_def
      clamp_Fin min_def max_def)

section \<open>The aggregator: lemmas\<close>

lemma aggStep_scorer:
  "aggStep H c cs r =
     (case pointToHeatEntry H (Some r) of None \<Rightarrow> cs | Some e \<Rightarrow> addEntry H c cs e)"
  by (simp add: aggStep_def pointToHeatEntry_def addEntry_def keyOf_def Let_def)

lemma aggLoop_None: "None \<in> set rows \<Longrightarrow> aggLoop H c cs rows = Inl TypeError"
proof (induction rows arbitrary: cs)
  case Nil
  then show ?case by simp
next
  case (Cons r rows)
  then show ?case by (cases r) auto
qed


text \<open>The cells after a run of the loop from the empty map.\<close>

lemma pointToHeatEntry_null: "pointToHeatEntry H None = None"
  by (simp add: pointToHeatEntry_def)

lemma aggStep_rejected: "\<not> accepted H r \<Longrightarrow> aggStep H c cs r = cs"
  by (simp add: aggStep_scorer pointToHeatEntry_None_iff[THEN iffD2])

lemma aggLoop_skip:
  "\<not> accepted H r \<Longrightarrow> aggLoop H c cs (xs @ Some r # ys) = aggLoop H c cs (xs @ ys)"
proof (induction xs arbitrary: cs)
  case Nil
  then show ?case by (simp add: aggStep_rejected)
next
  case (Cons x xs)
  then show ?case by (cases x) simp_all
qed

lemma heatLoop_entries:
  "heatLoop H arr rows = arr @ map (\<lambda>e. (e_lat e, e_lng e, intensity e)) (entries H rows)"
proof (induction rows arbitrary: arr)
  case Nil
  then show ?case by (simp add: entries_def)
next
  case (Cons r rows)
  then show ?case by (simp add: entries_def split: option.splits)
qed

lemma entries_skip:
  "\<not> accepted H r \<Longrightarrow> entries H (xs @ Some r # ys) = entries H (xs @ ys)"
  by (simp add: entries_def map_filter_def pointToHeatEntry_None_iff[THEN iffD2])

text \<open>NaN in a sum or a product gives NaN.\<close>

lemma js_add_NaN: "js_add a NaN = NaN"
  by (cases a) simp_all

lemma js_mul_NaN: "js_mul a NaN = NaN"
  by (cases a) simp_all

lemma addEntry_NaN:
  "intensity e = NaN \<Longrightarrow>
     addEntry H c [] e =
       [(keyOf H c e, \<lparr>latSum = NaN, lngSum = NaN, weightSum = NaN, c_count = 1\<rparr>)]"
  by (simp add: addEntry_def js_mul_NaN js_add_NaN)

section \<open>The examples evaluated\<close>

lemma malformedRow_rejected: "\<not> accepted ex_host malformedRow"
  by (simp add: accepted_def rowLat_def malformedRow_def blank_def ex_host_def)

lemma unsafeRow_entry:
  "pointToHeatEntry H (Some (unsafeRow x y)) =
     Some \<lparr>e_lat = Fin x, e_lng = Fin y, intensity = Fin (154 / 100),
       e_meta = \<lparr>m_score = Some (Fin 0), m_samples = Fin 9, m_confidence = Null\<rparr>\<rparr>"
  by (simp add: pointToHeatEntry_def Let_def unsafeRow_def rowAt_def blank_def
      VISUAL_AMPLIFIER_def MAX_INTENSITY_CLAMP_def js_sub_def)

lemma safeRow_entry:
  "pointToHeatEntry H (Some (safeRow x y)) =
     Some \<lparr>e_lat = Fin x, e_lng = Fin y, intensity = Fin (1 / 100),
       e_meta = \<lparr>m_score = Some (Fin 1), m_samples = Fin 1, m_confidence = Null\<rparr>\<rparr>"
  by (simp add: pointToHeatEntry_def Let_def safeRow_def rowAt_def blank_def
      VISUAL_AMPLIFIER_def MAX_INTENSITY_CLAMP_def js_sub_def)



lemma nanRow_NaN:
  "accepted ex_host nanRow" "\<not> scoreAbsent nanRow" "Number ex_host (score nanRow) = NaN"
  "rowLat ex_host nanRow = Fin 1" "rowLng ex_host nanRow = Fin 2"
  by (simp_all add: accepted_def rowLat_def rowLng_def scoreAbsent_def nanRow_def rowAt_def
      blank_def ex_host_def)

text \<open>A null under \<^verbatim>\<open>lat\<close> alone leaves the chain undefined, and the row is rejected.\<close>

lemma lat_null_alone_rejected: "\<not> accepted H (blank\<lparr>lat := Null, lng := Num (Fin 5)\<rparr>)"
  by (simp add: accepted_def rowLat_def blank_def)

section \<open>The debounce: lemmas\<close>

lemma armed_first:
  "armed t (moveend t (fire t initTimers)) \<and> fetches (moveend t (fire t initTimers)) = 0"
  by (simp add: armed_def moveend_def fire_def initTimers_def setTimeout_def)

lemma armed_within:
  assumes "armed a st" "b < a + 300"
  shows "armed b (moveend b (fire b st)) \<and> fetches (moveend b (fire b st)) = fetches st"
  using assms
  by (auto simp: armed_def moveend_def fire_def setTimeout_def clearTimeout_def)

lemma armed_beyond:
  assumes "armed a st" "a + 300 < b"
  shows "armed b (moveend b (fire b st)) \<and> fetches (moveend b (fire b st)) = fetches st + 1"
  using assms
  by (auto simp: armed_def moveend_def fire_def setTimeout_def clearTimeout_def)

lemma armed_settle: "armed a st \<Longrightarrow> fetches (settle st) = fetches st + 1"
  by (auto simp: armed_def settle_def)

lemma burst_run:
  "armed a st \<Longrightarrow> burst (a # ts) \<Longrightarrow> fetches (settle (runEvents ts st)) = fetches st + 1"
proof (induction ts arbitrary: a st)
  case Nil
  then show ?case by (simp add: armed_settle)
next
  case (Cons b ts)
  then have "armed b (moveend b (fire b st))" "fetches (moveend b (fire b st)) = fetches st"
    "burst (b # ts)"
    using armed_within[of a st b] by auto
  with Cons.IH show ?case by simp
qed

lemma spaced_run:
  "armed a st \<Longrightarrow> spaced (a # ts) \<Longrightarrow>
     fetches (settle (runEvents ts st)) = fetches st + 1 + length ts"
proof (induction ts arbitrary: a st)
  case Nil
  then show ?case by (simp add: armed_settle)
next
  case (Cons b ts)
  then have "armed b (moveend b (fire b st))" "fetches (moveend b (fire b st)) = fetches st + 1"
    "spaced (b # ts)"
    using armed_beyond[of a st b] by auto
  with Cons.IH show ?case by simp
qed

section \<open>CSV export: lemmas\<close>







section \<open>The properties of the specification\<close>

text \<open>
  C1, as the code has it. A row that is accepted, has no score (absent or null) and whose
  sample count is 1 (or absent, when \<^verbatim>\<open>samples\<close> and \<^verbatim>\<open>count\<close> are both missing) gets the
  intensity \<open>0.75 * (0.45 + log10(2) * 0.32) * 2\<close>, which lies between 0.819 and 0.820: the
  boost of a single sample is \<open>0.45 + 0.32 * log10(2)\<close>, not 0.45, so the intensity is not
  0.675.
\<close>

theorem C1_default_intensity:
  assumes "accepted H r" "scoreAbsent r" "samplesValue H r = Fin 1"
  shows "\<exists>e. pointToHeatEntry H (Some r) = Some e \<and>
           intensity e = Fin (75 / 100 * (45 / 100 + log 10 2 * (32 / 100)) * 2) \<and>
           819 / 1000 < 75 / 100 * (45 / 100 + log 10 2 * (32 / 100)) * (2::real) \<and>
           75 / 100 * (45 / 100 + log 10 2 * (32 / 100)) * (2::real) < 820 / 1000"
proof -
  obtain x y where xy: "rowLat H r = Fin x" "rowLng H r = Fin y"
    using assms(1) by (auto simp: accepted_def isFinite_iff)
  have lo: "819 / 1000 < 75 / 100 * (45 / 100 + log 10 2 * (32 / 100)) * (2::real)"
    using log10_2_lower by simp
  have hi: "75 / 100 * (45 / 100 + log 10 2 * (32 / 100)) * (2::real) < 820 / 1000"
    using log10_2_upper by (simp add: algebra_simps)
  have "pointToHeatEntry H (Some r) = Some \<lparr>e_lat = Fin x, e_lng = Fin y,
      intensity = Fin (75 / 100 * (45 / 100 + log 10 2 * (32 / 100)) * 2),
      e_meta = \<lparr>m_score = None, m_samples = Fin 1,
        m_confidence = nullish (nullish (confidence r) (confidence_numeric r)) Null\<rparr>\<rparr>"
    using assms(2,3) xy log10_2_lower log10_2_upper
    apply (simp only: pointToHeatEntry_def Let_def scoreAbsent_def
          rowLat_def[symmetric] rowLng_def[symmetric] samplesValue_def[symmetric]
          VISUAL_AMPLIFIER_def)
    apply (auto simp add: clamp_Fin min_def max_def)
    done
  then show ?thesis using lo hi by simp
qed

theorem C1_default_intensity_witness:
  "accepted ex_host (rowAt (1313 / 100) (7757 / 100)) \<and>
   scoreAbsent (rowAt (1313 / 100) (7757 / 100)) \<and>
   samplesValue ex_host (rowAt (1313 / 100) (7757 / 100)) = Fin 1 \<and>
   (\<exists>e. pointToHeatEntry ex_host (Some (rowAt (1313 / 100) (7757 / 100))) = Some e \<and>
      intensity e = Fin (75 / 100 * (45 / 100 + log 10 2 * (32 / 100)) * 2))"
proof -
  have a: "accepted ex_host (rowAt (1313 / 100) (7757 / 100))"
    by (rule rowAt_accepted)
  have b: "scoreAbsent (rowAt (1313 / 100) (7757 / 100))"
    and c: "samplesValue ex_host (rowAt (1313 / 100) (7757 / 100)) = Fin 1"
    using rowAt_default by blast+
  from C1_default_intensity[OF a b c] a b c show ?thesis by blast
qed

text \<open>
  C1 as stated fails: the row \<^verbatim>\<open>{lat: 13.13, lng: 77.57}\<close> has no score and no sample
  count, and its intensity is not 0.675.
\<close>

theorem C1_counterexample:
  "map_option intensity (pointToHeatEntry ex_host (Some (rowAt (1313 / 100) (7757 / 100)))) =
     Some (Fin (75 / 100 * (45 / 100 + log 10 2 * (32 / 100)) * 2)) \<and>
   map_option intensity (pointToHeatEntry ex_host (Some (rowAt (1313 / 100) (7757 / 100)))) \<noteq>
     Some (Fin (675 / 1000))"
proof -
  have "819 / 1000 < 75 / 100 * (45 / 100 + log 10 2 * (32 / 100)) * (2::real)"
    using log10_2_lower by simp
  then have "75 / 100 * (45 / 100 + log 10 2 * (32 / 100)) * (2::real) \<noteq> 675 / 1000"
    by linarith
  then show ?thesis
    by (simp only: rowAt_entry) simp
qed

text \<open>
  C2, where the code fails it. An accepted row whose score converts to NaN (a string that
  is not a number) has the point intensity NaN, which the clamp lets through. Alone in a
  batch it makes a cell whose weight sum is NaN instead of a positive number, and the cell
  is emitted with centroid NaN and intensity NaN.
\<close>

theorem C2_nan_cell:
  assumes "accepted H r" "\<not> scoreAbsent r" "Number H (score r) = NaN"
  shows "(\<exists>k. aggLoop H c [] [Some r] =
            Inr [(k, \<lparr>latSum = NaN, lngSum = NaN, weightSum = NaN, c_count = 1\<rparr>)]) \<and>
         aggregateByGrid H [Some r] c =
           Inr [\<lparr>a_lat = NaN, a_lng = NaN, a_intensity = NaN, a_count = 1\<rparr>]"
proof -
  obtain e where e: "pointToHeatEntry H (Some r) = Some e" "intensity e = NaN"
    using pointToHeatEntry_NaN_score[OF assms] by blast
  have step: "aggStep H c [] r =
      [(keyOf H c e, \<lparr>latSum = NaN, lngSum = NaN, weightSum = NaN, c_count = 1\<rparr>)]"
    using e by (simp add: aggStep_scorer addEntry_NaN)
  then have "aggLoop H c [] [Some r] =
      Inr [(keyOf H c e, \<lparr>latSum = NaN, lngSum = NaN, weightSum = NaN, c_count = 1\<rparr>)]"
    by simp
  moreover from this have "aggregateByGrid H [Some r] c =
      Inr [\<lparr>a_lat = NaN, a_lng = NaN, a_intensity = NaN, a_count = 1\<rparr>]"
    by (simp add: aggregateByGrid_def emitCell_def MAX_INTENSITY_CLAMP_def)
  ultimately show ?thesis by blast
qed

theorem C2_nan_cell_witness:
  "aggregateByGrid ex_host [Some nanRow] AGG_CELL_SIZE_DEG =
     Inr [\<lparr>a_lat = NaN, a_lng = NaN, a_intensity = NaN, a_count = 1\<rparr>]"
  using C2_nan_cell[OF nanRow_NaN(1,2,3), of AGG_CELL_SIZE_DEG] by blast

text \<open>
  C3, where the code fails it. For an accepted row whose score converts to NaN the scorer
  returns the intensity NaN, which is neither finite nor in \<open>[0.01, 4]\<close>: \<open>1 - NaN\<close> is NaN
  and both clamps return NaN for it. The NaN reaches the heat array, and the cell that the
  aggregator emits for the row has the intensity NaN too. (For the numeric rows the bounds
  hold: lemma \<open>pointToHeatEntry_numeric\<close>.)
\<close>

theorem C3_nan_intensity:
  assumes "accepted H r" "\<not> scoreAbsent r" "Number H (score r) = NaN"
  shows "(\<exists>e. pointToHeatEntry H (Some r) = Some e \<and> intensity e = NaN) \<and>
         buildHeatArrayFromRows H (Some [Some r]) = Inr [(rowLat H r, rowLng H r, NaN)] \<and>
         (\<exists>a. aggregateByGrid H [Some r] c = Inr [a] \<and> a_intensity a = NaN)"
proof -
  obtain e where e: "pointToHeatEntry H (Some r) = Some e" "e_lat e = rowLat H r"
    "e_lng e = rowLng H r" "intensity e = NaN"
    using pointToHeatEntry_NaN_score[OF assms] by blast
  have heat: "buildHeatArrayFromRows H (Some [Some r]) = Inr [(rowLat H r, rowLng H r, NaN)]"
    using e by (simp add: buildHeatArrayFromRows_def USE_AGGREGATION_def)
  have "aggStep H c [] r =
      [(keyOf H c e, \<lparr>latSum = NaN, lngSum = NaN, weightSum = NaN, c_count = 1\<rparr>)]"
    using e by (simp add: aggStep_scorer addEntry_NaN)
  then have "aggregateByGrid H [Some r] c =
      Inr [\<lparr>a_lat = NaN, a_lng = NaN, a_intensity = NaN, a_count = 1\<rparr>]"
    by (simp add: aggregateByGrid_def emitCell_def MAX_INTENSITY_CLAMP_def)
  then have "\<exists>a. aggregateByGrid H [Some r] c = Inr [a] \<and> a_intensity a = NaN"
    by simp
  with e(1,4) heat show ?thesis by blast
qed

theorem C3_nan_intensity_witness:
  "map_option intensity (pointToHeatEntry ex_host (Some nanRow)) = Some NaN \<and>
   buildHeatArrayFromRows ex_host (Some [Some nanRow]) = Inr [(Fin 1, Fin 2, NaN)]"
  using C3_nan_intensity[OF nanRow_NaN(1,2,3), of AGG_CELL_SIZE_DEG] nanRow_NaN(4,5)
  by auto






text \<open>
  C7. When the fetch of a cycle fails, \<open>lastFetchedPoints\<close> and the heat layer are as before
  the cycle, the error is thrown to the caller, and the feedback element, if there is one,
  shows the failure. \<open>lastFetchedPoints\<close> changes in a cycle only if the fetch succeeded,
  and then it is the fetched array.
\<close>

theorem C7_fetch_failure:
  "lastFetchedPoints (fst (fetchAndRender H pg st (Inl err))) = lastFetchedPoints st \<and>
   heatLayer (fst (fetchAndRender H pg st (Inl err))) = heatLayer st \<and>
   snd (fetchAndRender H pg st (Inl err)) = Inl err \<and>
   (feedbackEl pg \<longrightarrow> feedbackText (fst (fetchAndRender H pg st (Inl err))) = Some (Failed err)) \<and>
   (lastFetchedPoints (fst (fetchAndRender H pg st fetched)) \<noteq> lastFetchedPoints st \<longrightarrow>
      (\<exists>d. fetched = Inr d \<and> d \<noteq> RespNullish)) \<and>
   lastFetchedPoints (fst (fetchAndRender H pg st (Inr (RespArray pts)))) = pts"
proof -
  have fail: "fetchAndRender H pg st (Inl err) =
      (setFeedback pg (Failed err) (setFeedback pg Loading st), Inl err)"
    by (simp add: fetchAndRender_def catchBlock_def)
  have keep: "lastFetchedPoints (setFeedback pg m s) = lastFetchedPoints s"
    "heatLayer (setFeedback pg m s) = heatLayer s" for m s
    by (simp_all add: setFeedback_def)
  have null: "fetchAndRender H pg st (Inr RespNullish) =
      (setFeedback pg (Failed TypeError) (setFeedback pg Loading st), Inl TypeError)"
    by (simp add: fetchAndRender_def catchBlock_def)
  have changed: "\<exists>d. fetched = Inr d \<and> d \<noteq> RespNullish"
    if "lastFetchedPoints (fst (fetchAndRender H pg st fetched)) \<noteq> lastFetchedPoints st"
  proof (cases fetched)
    case (Inl e)
    with that show ?thesis by (simp add: fetchAndRender_def catchBlock_def keep)
  next
    case (Inr d)
    with that null show ?thesis by (cases d) (auto simp: keep)
  qed
  have upd: "updateLeftFeedback pg pts s = Inr s' \<Longrightarrow> lastFetchedPoints s' = lastFetchedPoints s"
    for s s'
    by (auto simp: updateLeftFeedback_def split: if_splits)
  have ok: "lastFetchedPoints (fst (fetchAndRender H pg st (Inr (RespArray pts)))) = pts"
    by (auto simp: fetchAndRender_def catchBlock_def keep Let_def dest!: upd
        split: sum.splits)
  from fail keep changed ok show ?thesis
    by (simp add: setFeedback_def)
qed

theorem C7_fetch_failure_witness:
  "lastFetchedPoints
     (fst (fetchAndRender ex_host \<lparr>feedbackEl = True, heatPlugin = True\<rparr>
        \<lparr>lastFetchedPoints = [Some (safeRow 0 0)], feedbackText = Some (Loaded 1),
         heatLayer = Some [(Fin 0, Fin 0, Fin (1 / 100))]\<rparr>
        (Inl (FetchError ''Network Error'')))) = [Some (safeRow 0 0)] \<and>
   snd (fetchAndRender ex_host \<lparr>feedbackEl = True, heatPlugin = True\<rparr>
        \<lparr>lastFetchedPoints = [Some (safeRow 0 0)], feedbackText = Some (Loaded 1),
         heatLayer = Some [(Fin 0, Fin 0, Fin (1 / 100))]\<rparr>
        (Inl (FetchError ''Network Error''))) = Inl (FetchError ''Network Error'') \<and>
   feedbackText
     (fst (fetchAndRender ex_host \<lparr>feedbackEl = True, heatPlugin = True\<rparr>
        \<lparr>lastFetchedPoints = [Some (safeRow 0 0)], feedbackText = Some (Loaded 1),
         heatLayer = Some [(Fin 0, Fin 0, Fin (1 / 100))]\<rparr>
        (Inl (FetchError ''Network Error'')))) = Some (Failed (FetchError ''Network Error''))"
  using C7_fetch_failure[of ex_host "\<lparr>feedbackEl = True, heatPlugin = True\<rparr>"
      "\<lparr>lastFetchedPoints = [Some (safeRow 0 0)], feedbackText = Some (Loaded 1),
        heatLayer = Some [(Fin 0, Fin 0, Fin (1 / 100))]\<rparr>" "FetchError ''Network Error''"]
  by simp

text \<open>
  C8, where the code fails it. \<^verbatim>\<open>Number(null)\<close> is 0: a row whose latitude is null under
  the last alias \<^verbatim>\<open>lat_deg\<close>, and absent or null under the others, has no latitude and
  yet is accepted at latitude 0 by the scorer and added to a cell by the aggregator. And an
  element of the batch that is null, for which the scorer returns null, makes
  \<open>aggregateByGrid\<close> throw a TypeError whatever the other rows are.
\<close>

theorem C8_null_coordinate:
  assumes "lat r = Undefined \<or> lat r = Null" "latitude r = Undefined \<or> latitude r = Null"
    and "lat_deg r = Null" and "isFinite (rowLng H r)"
  shows "rowLat H r = Fin 0 \<and> accepted H r \<and>
         (\<exists>e. pointToHeatEntry H (Some r) = Some e \<and> e_lat e = Fin 0) \<and>
         (\<exists>k v. aggLoop H c [] [Some r] = Inr [(k, v)] \<and> c_count v = 1) \<and>
         pointToHeatEntry H None = None \<and>
         aggregateByGrid H (xs @ None # ys) c = Inl TypeError"
proof -
  have zero: "rowLat H r = Fin 0"
    using assms(1,2,3) by (auto simp: rowLat_def)
  with assms(4) have acc: "accepted H r"
    by (simp add: accepted_def)
  then obtain e where e: "pointToHeatEntry H (Some r) = Some e"
    using pointToHeatEntry_None_iff[of H r] by auto
  then have lat0: "e_lat e = Fin 0"
    using pointToHeatEntry_position[OF e] zero by simp
  have "aggStep H c [] r = addEntry H c [] e"
    using e by (simp add: aggStep_scorer)
  then have "\<exists>k v. aggLoop H c [] [Some r] = Inr [(k, v)] \<and> c_count v = 1"
    by (simp add: addEntry_def)
  moreover have "aggregateByGrid H (xs @ None # ys) c = Inl TypeError"
    by (simp add: aggregateByGrid_def aggLoop_None)
  ultimately show ?thesis
    using zero acc e lat0 pointToHeatEntry_null by blast
qed

theorem C8_null_coordinate_witness:
  "map_option e_lat (pointToHeatEntry ex_host (Some nullLatRow)) = Some (Fin 0) \<and>
   aggregateByGrid ex_host [Some (safeRow 0 0), None] AGG_CELL_SIZE_DEG = Inl TypeError \<and>
   pointToHeatEntry ex_host None = None"
proof -
  have a: "lat nullLatRow = Undefined \<or> lat nullLatRow = Null"
    "latitude nullLatRow = Undefined \<or> latitude nullLatRow = Null"
    "lat_deg nullLatRow = Null" "isFinite (rowLng ex_host nullLatRow)"
    by (simp_all add: nullLatRow_def blank_def rowLng_def)
  from C8_null_coordinate[OF a, of AGG_CELL_SIZE_DEG "[Some (safeRow 0 0)]" "[]"]
  show ?thesis by auto
qed

text \<open>
  C9. On a clock in milliseconds on which a timer fires when it is due: the events of a
  burst, each less than 300 ms after the one before, lead to exactly one fetch, and events
  each more than 300 ms after the one before lead to one fetch per event.
\<close>

theorem C9_debounce:
  assumes "ts \<noteq> []"
  shows "(burst ts \<longrightarrow> fetches (settle (runEvents ts initTimers)) = 1) \<and>
         (spaced ts \<longrightarrow> fetches (settle (runEvents ts initTimers)) = length ts)"
proof -
  from assms obtain t ts' where ts: "ts = t # ts'" by (cases ts) auto
  let ?st = "moveend t (fire t initTimers)"
  have a: "armed t ?st" and f: "fetches ?st = 0"
    using armed_first by blast+
  have "burst ts \<longrightarrow> fetches (settle (runEvents ts initTimers)) = 1"
    using burst_run[OF a, of ts'] f by (simp add: ts)
  moreover have "spaced ts \<longrightarrow> fetches (settle (runEvents ts initTimers)) = length ts"
    using spaced_run[OF a, of ts'] f by (simp add: ts)
  ultimately show ?thesis by blast
qed

theorem C9_debounce_witness:
  "fetches (settle (runEvents [0, 100, 250, 549] initTimers)) = 1 \<and>
   fetches (settle (runEvents [0, 301, 700, 1001] initTimers)) = 4"
proof -
  have "burst [0, 100, 250, 549]" "spaced [0, 301, 700, 1001]" by simp_all
  with C9_debounce[of "[0, 100, 250, 549]"] C9_debounce[of "[0, 301, 700, 1001]"]
  show ?thesis by simp
qed

text \<open>
  C10. Aggregation being switched off, \<open>buildHeatArrayFromRows\<close> returns the empty array for
  a missing or empty argument, and otherwise the triples of the heat entries of the rows
  that the scorer accepts, one per accepted row and in the order of the rows; never an
  error.
\<close>

theorem C10_unaggregated:
  "buildHeatArrayFromRows H None = Inr [] \<and>
   buildHeatArrayFromRows H (Some []) = Inr [] \<and>
   buildHeatArrayFromRows H (Some rows) =
     Inr (map (\<lambda>e. (e_lat e, e_lng e, intensity e)) (List.map_filter (pointToHeatEntry H) rows)) \<and>
   (\<exists>out. buildHeatArrayFromRows H (Some rows) = Inr out \<and>
      length out = length (filter (\<lambda>p. pointToHeatEntry H p \<noteq> None) rows))"
proof -
  have "heatLoop H [] rows =
      map (\<lambda>e. (e_lat e, e_lng e, intensity e)) (List.map_filter (pointToHeatEntry H) rows)"
    by (simp add: heatLoop_entries entries_def)
  moreover have "length (List.map_filter (pointToHeatEntry H) rows) =
      length (filter (\<lambda>p. pointToHeatEntry H p \<noteq> None) rows)"
    by (simp add: map_filter_def)
  ultimately show ?thesis
    by (cases rows) (simp_all add: buildHeatArrayFromRows_def USE_AGGREGATION_def)
qed

theorem C10_unaggregated_witness:
  "buildHeatArrayFromRows ex_host
     (Some [Some (safeRow 0 0), None, Some malformedRow, Some (unsafeRow (3 / 10000) 0)]) =
     Inr [(Fin 0, Fin 0, Fin (1 / 100)), (Fin (3 / 10000), Fin 0, Fin (154 / 100))]"
proof -
  have "pointToHeatEntry ex_host (Some malformedRow) = None"
    using malformedRow_rejected by (simp add: pointToHeatEntry_None_iff)
  with C10_unaggregated[of ex_host
      "[Some (safeRow 0 0), None, Some malformedRow, Some (unsafeRow (3 / 10000) 0)]"]
  show ?thesis
    by (simp add: safeRow_entry unsafeRow_entry pointToHeatEntry_null)
qed

end
